theory Spec2Isabelle
  imports
    Main
    "HOL-Library.Word"
    "HOL-Library.Signed_Division"
    "HOL-Library.Char_ord"
    "HOL-Library.List_Lexorder"
begin

section \<open>Decimals and coin sets\<close>

text \<open>
  The keeper computes with the fixed-precision decimals and the coin sets of the
  \<^verbatim>\<open>types\<close> package, which lies outside the files verified here; the
  definitions of this section give its operations the meaning the keeper relies on:
  a decimal is an integer number of units of \<open>10\<^sup>-\<^sup>1\<^sup>8\<close>, a coin set is a list of
  (denomination, amount) pairs kept in ascending order of denomination. The checks of
  the package on the syntax of a denomination, on the bit length of a decimal and on
  the validity of a coin set handed to a constructor are not part of the model.
\<close>

type_synonym Dec = int

text \<open>Modelled from the spec: the decimal type \<^verbatim>\<open>Dec\<close> of the \<^verbatim>\<open>types\<close> package,
  "a fixed-precision decimal type": 18 digits after the point. \<^verbatim>\<open>OneDec\<close> is 1,
  \<^verbatim>\<open>SmallestDec\<close> the smallest decimal above zero, \<^verbatim>\<open>MulInt64\<close> the product with
  an integer.\<close>

definition Precision :: int where
  "Precision = 1000000000000000000"

definition OneDec :: Dec where
  "OneDec = Precision"

definition SmallestDec :: Dec where
  "SmallestDec = 1"

definition MulInt64 :: "Dec \<Rightarrow> int \<Rightarrow> Dec" where
  "MulInt64 d i = d * i"

text \<open>Modelled from the spec: the truncating operations of \<^verbatim>\<open>Dec\<close>, the product
  \<^verbatim>\<open>MulTruncate\<close> and the whole part \<^verbatim>\<open>TruncateInt\<close> (with \<^verbatim>\<open>ToDec\<close> back
  from a whole number): every truncation is "round toward zero at fixed decimal
  precision"; \<open>sdiv\<close> is the division that rounds toward zero.\<close>

definition MulTruncate :: "Dec \<Rightarrow> Dec \<Rightarrow> Dec" where
  "MulTruncate d d2 = (d * d2) sdiv Precision"

definition TruncateInt :: "Dec \<Rightarrow> int" where
  "TruncateInt d = d sdiv Precision"

definition ToDec :: "int \<Rightarrow> Dec" where
  "ToDec i = i * Precision"

text \<open>Modelled from the spec: \<^verbatim>\<open>MaxDec\<close> and \<^verbatim>\<open>MinDec\<close> of the \<^verbatim>\<open>types\<close>
  package, the greater and the lesser of two decimals.\<close>

definition MaxDec :: "Dec \<Rightarrow> Dec \<Rightarrow> Dec" where
  "MaxDec d1 d2 = (if d1 < d2 then d2 else d1)"

definition MinDec :: "Dec \<Rightarrow> Dec \<Rightarrow> Dec" where
  "MinDec d1 d2 = (if d1 < d2 then d1 else d2)"

type_synonym DecCoin = "string \<times> Dec"
type_synonym DecCoins = "DecCoin list"
type_synonym Coin = "string \<times> int"
type_synonym Coins = "Coin list"

text \<open>Modelled from the spec: \<^verbatim>\<open>DecCoins.Add\<close> and \<^verbatim>\<open>Coins.Add\<close> of the
  \<^verbatim>\<open>types\<close> package (with their helpers \<^verbatim>\<open>safeAdd\<close> and
  \<^verbatim>\<open>removeZeroDecCoins\<close>), the sum of two coin sets, denomination by denomination.
  The two lists are merged in ascending order of denomination and a coin whose amount
  is zero is left out of the sum. Sets of whole coins are added the same way.\<close>

definition removeZeroDecCoins :: "DecCoins \<Rightarrow> DecCoins" where
  "removeZeroDecCoins coins = filter (\<lambda>coin. snd coin \<noteq> 0) coins"

fun safeAdd :: "DecCoins \<Rightarrow> DecCoins \<Rightarrow> DecCoins" where
  "safeAdd [] coinsB = removeZeroDecCoins coinsB"
| "safeAdd (coinA # coins) [] = removeZeroDecCoins (coinA # coins)"
| "safeAdd (coinA # coins) (coinB # coinsB) =
     (if fst coinA < fst coinB then
        (if snd coinA \<noteq> 0 then [coinA] else []) @ safeAdd coins (coinB # coinsB)
      else if fst coinA = fst coinB then
        (if snd coinA + snd coinB \<noteq> 0 then [(fst coinA, snd coinA + snd coinB)] else [])
          @ safeAdd coins coinsB
      else
        (if snd coinB \<noteq> 0 then [coinB] else []) @ safeAdd (coinA # coins) coinsB)"

definition DecCoins_Add :: "DecCoins \<Rightarrow> DecCoins \<Rightarrow> DecCoins" where
  "DecCoins_Add coins coinsB = safeAdd coins coinsB"

definition Coins_Add :: "Coins \<Rightarrow> Coins \<Rightarrow> Coins" where
  "Coins_Add coins coinsB = safeAdd coins coinsB"

text \<open>Modelled from the spec: \<^verbatim>\<open>DecCoins.Sub\<close> of the \<^verbatim>\<open>types\<close> package (with
  \<^verbatim>\<open>negative\<close> and \<^verbatim>\<open>IsAnyNegative\<close>), the difference of two coin sets,
  denomination by denomination; a negative amount in the difference is fatal.\<close>

definition negative :: "DecCoins \<Rightarrow> DecCoins" where
  "negative coins = map (\<lambda>coin. (fst coin, - snd coin)) coins"

definition IsAnyNegative :: "DecCoins \<Rightarrow> bool" where
  "IsAnyNegative coins = list_ex (\<lambda>coin. snd coin < 0) coins"

datatype panic = Panic string

definition DecCoins_Sub :: "DecCoins \<Rightarrow> DecCoins \<Rightarrow> panic + DecCoins" where
  "DecCoins_Sub coins coinsB =
     (let diff = safeAdd coins (negative coinsB) in
      if IsAnyNegative diff then Inl (Panic ''negative coin amount'') else Inr diff)"

text \<open>Modelled from the spec: \<^verbatim>\<open>DecCoins.AmountOf\<close> of the \<^verbatim>\<open>types\<close> package,
  the amount a coin set holds of a denomination, zero when the denomination is
  absent.\<close>

fun AmountOf :: "DecCoins \<Rightarrow> string \<Rightarrow> Dec" where
  "AmountOf [] denom = 0"
| "AmountOf (coin # coins) denom =
     (if fst coin = denom then snd coin else AmountOf coins denom)"

text \<open>Modelled from the spec: \<^verbatim>\<open>DecCoins.Intersect\<close> of the \<^verbatim>\<open>types\<close> package,
  \<open>min\<close> per denomination, over the denominations of the first set, zero amounts
  removed.\<close>

definition Intersect :: "DecCoins \<Rightarrow> DecCoins \<Rightarrow> DecCoins" where
  "Intersect coins coinsB =
     removeZeroDecCoins
       (map (\<lambda>coin. (fst coin, MinDec (snd coin) (AmountOf coinsB (fst coin)))) coins)"

text \<open>Modelled from the spec: \<^verbatim>\<open>DecCoins.MulDecTruncate\<close> of the \<^verbatim>\<open>types\<close>
  package, each amount times a decimal, truncated; a product that is zero is left
  out.\<close>

fun MulDecTruncate_from :: "DecCoins \<Rightarrow> DecCoins \<Rightarrow> Dec \<Rightarrow> DecCoins" where
  "MulDecTruncate_from res [] d = res"
| "MulDecTruncate_from res (coin # coins) d =
     (let product = (fst coin, MulTruncate (snd coin) d) in
      MulDecTruncate_from
        (if snd product \<noteq> 0 then DecCoins_Add res [product] else res) coins d)"

definition MulDecTruncate :: "DecCoins \<Rightarrow> Dec \<Rightarrow> DecCoins" where
  "MulDecTruncate coins d = MulDecTruncate_from [] coins d"

text \<open>Modelled from the spec: \<^verbatim>\<open>DecCoins.TruncateDecimal\<close> and \<^verbatim>\<open>Coins.IsZero\<close>
  of the \<^verbatim>\<open>types\<close> package: a coin set split into its whole units and the
  fractional remainder ("truncate to whole transferable units"), and the test that
  nothing is to be paid.\<close>

fun TruncateDecimal_from :: "Coins \<times> DecCoins \<Rightarrow> DecCoins \<Rightarrow> Coins \<times> DecCoins" where
  "TruncateDecimal_from acc [] = acc"
| "TruncateDecimal_from (truncatedCoins, changeCoins) (coin # coins) =
     (let truncated = TruncateInt (snd coin);
          change = snd coin - ToDec truncated
      in TruncateDecimal_from
           (if truncated \<noteq> 0 then Coins_Add truncatedCoins [(fst coin, truncated)]
            else truncatedCoins,
            DecCoins_Add changeCoins [(fst coin, change)])
           coins)"

definition TruncateDecimal :: "DecCoins \<Rightarrow> Coins \<times> DecCoins" where
  "TruncateDecimal coins = TruncateDecimal_from ([], []) coins"

definition Coins_IsZero :: "Coins \<Rightarrow> bool" where
  "Coins_IsZero coins = list_all (\<lambda>coin. snd coin = 0) coins"

text \<open>Modelled from the spec: \<^verbatim>\<open>NewDecCoinsFromCoins\<close>, \<^verbatim>\<open>DecCoins.Sort\<close> and
  \<^verbatim>\<open>NewDecCoinFromDec\<close> of the \<^verbatim>\<open>types\<close> package: the caller's cap, a set of
  whole coins, as decimal coins (zero coins removed, sorted by denomination, each
  amount as a decimal), and one decimal coin.\<close>

definition removeZeroCoins :: "Coins \<Rightarrow> Coins" where
  "removeZeroCoins coins = filter (\<lambda>coin. snd coin \<noteq> 0) coins"

definition DecCoins_Sort :: "DecCoins \<Rightarrow> DecCoins" where
  "DecCoins_Sort coins = sort_key fst coins"

definition NewCoins :: "Coins \<Rightarrow> Coins" where
  "NewCoins coins = sort_key fst (removeZeroCoins coins)"

definition NewDecCoinsFromCoins :: "Coins \<Rightarrow> DecCoins" where
  "NewDecCoinsFromCoins coins = map (\<lambda>coin. (fst coin, ToDec (snd coin))) (NewCoins coins)"

definition NewDecCoinFromDec :: "string \<Rightarrow> Dec \<Rightarrow> DecCoin" where
  "NewDecCoinFromDec denom amount = (denom, amount)"

text \<open>Modelled from the spec: \<^verbatim>\<open>Coins.String\<close> of the \<^verbatim>\<open>types\<close> package, the
  text of a coin set as an event attribute carries it ("a well-formed amount"): each
  coin as its amount followed by its denomination, the coins separated by commas.\<close>

definition digit_char :: "nat \<Rightarrow> char" where
  "digit_char n = ''0123456789'' ! n"

function nat_digits :: "nat \<Rightarrow> string" where
  "nat_digits n =
     (if n < 10 then [digit_char n] else nat_digits (n div 10) @ [digit_char (n mod 10)])"
  by pat_completeness auto
termination
  by (relation "measure id") auto

definition Int_String :: "int \<Rightarrow> string" where
  "Int_String i = (if i < 0 then ''-'' @ nat_digits (nat (- i)) else nat_digits (nat i))"

definition Coin_String :: "Coin \<Rightarrow> string" where
  "Coin_String coin = Int_String (snd coin) @ fst coin"

fun Coins_String :: "Coins \<Rightarrow> string" where
  "Coins_String [] = []"
| "Coins_String [coin] = Coin_String coin"
| "Coins_String (coin # coins) = Coin_String coin @ '','' @ Coins_String coins"

section \<open>The store and the collaborators of the keeper\<close>

record ValidatorHistoricalRewards =
  CumulativeRewardRatio :: DecCoins
  ReferenceCount :: "32 word"

record ValidatorCurrentRewards =
  Rewards :: DecCoins
  Period :: "64 word"

record DelegatorStartingInfo =
  PreviousPeriod :: "64 word"
  Stake :: Dec
  Height :: "64 word"

record ValidatorSlashEvent =
  ValidatorPeriod :: "64 word"
  Fraction :: Dec

record FeePool =
  CommunityPool :: DecCoins

record Event =
  EventType :: string
  Attributes :: "(string \<times> string) list"

text \<open>The interfaces \<^verbatim>\<open>ValidatorI\<close> and \<^verbatim>\<open>DelegationI\<close> of the staking module,
  each as the record of the methods the keeper calls.\<close>

record ValidatorI =
  GetOperator :: string
  TokensFromShares :: "Dec \<Rightarrow> Dec"
  TokensFromSharesTruncated :: "Dec \<Rightarrow> Dec"

record DelegationI =
  GetDelegatorAddr :: string
  GetShares :: Dec

text \<open>The context and the store of one state transition. \<open>BlockHeight\<close> holds the
  64 bits of the context's height, which the keeper reads as \<^verbatim>\<open>uint64\<close>; \<open>Bank\<close> is
  the state of the bank module, of which the keeper knows nothing.\<close>

record 'b Store =
  BlockHeight :: "64 word"
  StartingInfos :: "string \<times> string \<rightharpoonup> DelegatorStartingInfo"
  HistoricalRewards :: "string \<times> 64 word \<rightharpoonup> ValidatorHistoricalRewards"
  CurrentRewards :: "string \<rightharpoonup> ValidatorCurrentRewards"
  OutstandingRewards :: "string \<rightharpoonup> DecCoins"
  TheFeePool :: FeePool
  WithdrawAddrs :: "string \<rightharpoonup> string"
  Events :: "Event list"
  Bank :: 'b

text \<open>The functions that the keeper calls and that lie outside the files verified
  here, taken as parameters: the end of a validator's period (which
  returns the period ended), the per-delegator accumulator of outstanding rewards, the
  slash events an iteration between two heights visits (in the order it visits them),
  the staking keeper's lookups, the bank's transfer (which returns an error or not,
  and the bank's new state), and the registered base denomination (empty when none is
  registered).\<close>

record 'b Keeper =
  IncrementValidatorPeriod :: "ValidatorI \<Rightarrow> 'b Store \<Rightarrow> 64 word \<times> 'b Store"
  DelegationOutstandingRewards :: "'b Store \<Rightarrow> string \<Rightarrow> string \<Rightarrow> DecCoins"
  IterateValidatorSlashEventsBetween ::
    "'b Store \<Rightarrow> string \<Rightarrow> 64 word \<Rightarrow> 64 word \<Rightarrow> (64 word \<times> ValidatorSlashEvent) list"
  stakingKeeper_Validator :: "'b Store \<Rightarrow> string \<Rightarrow> ValidatorI"
  stakingKeeper_Delegation :: "'b Store \<Rightarrow> string \<Rightarrow> string \<Rightarrow> DelegationI"
  SendCoinsFromModuleToAccount :: "string \<Rightarrow> string \<Rightarrow> Coins \<Rightarrow> 'b \<Rightarrow> string option \<times> 'b"
  GetBaseDenom :: string

text \<open>Modelled from the spec: the accessors of the keeper's store, which lie outside
  the files verified here. The records are "keyed by validator/delegator identifiers";
  reading a record that is absent gives the zero value of its type; the withdraw
  address of a delegator who registered none is the delegator's.\<close>

definition GetDelegatorStartingInfo :: "'b Store \<Rightarrow> string \<Rightarrow> string \<Rightarrow> DelegatorStartingInfo" where
  "GetDelegatorStartingInfo s val del =
     (case StartingInfos s (val, del) of
        None \<Rightarrow> \<lparr>PreviousPeriod = 0, Stake = 0, Height = 0\<rparr>
      | Some info \<Rightarrow> info)"

definition HasDelegatorStartingInfo :: "'b Store \<Rightarrow> string \<Rightarrow> string \<Rightarrow> bool" where
  "HasDelegatorStartingInfo s val del = (StartingInfos s (val, del) \<noteq> None)"

definition SetDelegatorStartingInfo ::
    "string \<Rightarrow> string \<Rightarrow> DelegatorStartingInfo \<Rightarrow> 'b Store \<Rightarrow> 'b Store" where
  "SetDelegatorStartingInfo val del info s =
     s\<lparr>StartingInfos := (StartingInfos s)((val, del) \<mapsto> info)\<rparr>"

definition DeleteDelegatorStartingInfo :: "string \<Rightarrow> string \<Rightarrow> 'b Store \<Rightarrow> 'b Store" where
  "DeleteDelegatorStartingInfo val del s =
     s\<lparr>StartingInfos := (StartingInfos s)((val, del) := None)\<rparr>"

definition NewDelegatorStartingInfo :: "64 word \<Rightarrow> Dec \<Rightarrow> 64 word \<Rightarrow> DelegatorStartingInfo" where
  "NewDelegatorStartingInfo previousPeriod stake height =
     \<lparr>PreviousPeriod = previousPeriod, Stake = stake, Height = height\<rparr>"

definition GetValidatorHistoricalRewards ::
    "'b Store \<Rightarrow> string \<Rightarrow> 64 word \<Rightarrow> ValidatorHistoricalRewards" where
  "GetValidatorHistoricalRewards s val period =
     (case HistoricalRewards s (val, period) of
        None \<Rightarrow> \<lparr>CumulativeRewardRatio = [], ReferenceCount = 0\<rparr>
      | Some historical \<Rightarrow> historical)"

definition SetValidatorHistoricalRewards ::
    "string \<Rightarrow> 64 word \<Rightarrow> ValidatorHistoricalRewards \<Rightarrow> 'b Store \<Rightarrow> 'b Store" where
  "SetValidatorHistoricalRewards val period historical s =
     s\<lparr>HistoricalRewards := (HistoricalRewards s)((val, period) \<mapsto> historical)\<rparr>"

definition GetValidatorCurrentRewards :: "'b Store \<Rightarrow> string \<Rightarrow> ValidatorCurrentRewards" where
  "GetValidatorCurrentRewards s val =
     (case CurrentRewards s val of
        None \<Rightarrow> \<lparr>Rewards = [], Period = 0\<rparr>
      | Some current \<Rightarrow> current)"

definition GetValidatorOutstandingRewardsCoins :: "'b Store \<Rightarrow> string \<Rightarrow> DecCoins" where
  "GetValidatorOutstandingRewardsCoins s val =
     (case OutstandingRewards s val of None \<Rightarrow> [] | Some rewards \<Rightarrow> rewards)"

definition SetValidatorOutstandingRewards :: "string \<Rightarrow> DecCoins \<Rightarrow> 'b Store \<Rightarrow> 'b Store" where
  "SetValidatorOutstandingRewards val rewards s =
     s\<lparr>OutstandingRewards := (OutstandingRewards s)(val \<mapsto> rewards)\<rparr>"

definition GetFeePool :: "'b Store \<Rightarrow> FeePool" where
  "GetFeePool s = TheFeePool s"

definition SetFeePool :: "FeePool \<Rightarrow> 'b Store \<Rightarrow> 'b Store" where
  "SetFeePool feePool s = s\<lparr>TheFeePool := feePool\<rparr>"

definition GetDelegatorWithdrawAddr :: "'b Store \<Rightarrow> string \<Rightarrow> string" where
  "GetDelegatorWithdrawAddr s del =
     (case WithdrawAddrs s del of None \<Rightarrow> del | Some addr \<Rightarrow> addr)"

definition EmitEvent :: "Event \<Rightarrow> 'b Store \<Rightarrow> 'b Store" where
  "EmitEvent event s = s\<lparr>Events := Events s @ [event]\<rparr>"

text \<open>Modelled from the spec: \<^verbatim>\<open>incrementReferenceCount\<close> and
  \<^verbatim>\<open>decrementReferenceCount\<close> of the keeper, which lie outside the files verified
  here: the engine "only increments/decrements, never decides removal directly".\<close>

definition incrementReferenceCount :: "string \<Rightarrow> 64 word \<Rightarrow> 'b Store \<Rightarrow> 'b Store" where
  "incrementReferenceCount val period s =
     (let historical = GetValidatorHistoricalRewards s val period in
      SetValidatorHistoricalRewards val period
        (historical\<lparr>ReferenceCount := ReferenceCount historical + 1\<rparr>) s)"

definition decrementReferenceCount :: "string \<Rightarrow> 64 word \<Rightarrow> 'b Store \<Rightarrow> 'b Store" where
  "decrementReferenceCount val period s =
     (let historical = GetValidatorHistoricalRewards s val period in
      SetValidatorHistoricalRewards val period
        (historical\<lparr>ReferenceCount := ReferenceCount historical - 1\<rparr>) s)"

text \<open>Modelled from the spec: the names that the \<^verbatim>\<open>types\<close> packages give to the
  module, to the default bond denomination and to the event of a withdrawal with its
  attributes.\<close>

definition ModuleName :: string where
  "ModuleName = ''distribution''"

definition DefaultBondDenom :: string where
  "DefaultBondDenom = ''stake''"

definition EventTypeWithdrawRewards :: string where
  "EventTypeWithdrawRewards = ''withdraw_rewards''"

definition AttributeKeyAmount :: string where
  "AttributeKeyAmount = ''amount''"

definition AttributeKeyValidator :: string where
  "AttributeKeyValidator = ''validator''"

section \<open>The keeper: delegation rewards\<close>

text \<open>\<^verbatim>\<open>initializeDelegation\<close>: the starting info of a new delegation.\<close>

definition initializeDelegation :: "'b Keeper \<Rightarrow> string \<Rightarrow> string \<Rightarrow> 'b Store \<Rightarrow> 'b Store" where
  "initializeDelegation k val del s =
     (let previousPeriod = Period (GetValidatorCurrentRewards s val) - 1;
          s1 = incrementReferenceCount val previousPeriod s;
          validator = stakingKeeper_Validator k s1 val;
          delegation = stakingKeeper_Delegation k s1 del val;
          stake = TokensFromSharesTruncated validator (GetShares delegation)
      in SetDelegatorStartingInfo val del
           (NewDelegatorStartingInfo previousPeriod stake (BlockHeight s1)) s1)"

text \<open>\<^verbatim>\<open>calculateDelegationRewardsBetween\<close>: the rewards accrued by a delegation
  between two periods. A panic is the value \<open>Inl\<close>.\<close>

definition calculateDelegationRewardsBetween ::
    "'b Store \<Rightarrow> ValidatorI \<Rightarrow> 64 word \<Rightarrow> 64 word \<Rightarrow> Dec \<Rightarrow> panic + DecCoins" where
  "calculateDelegationRewardsBetween s val startingPeriod endingPeriod stake =
     (if startingPeriod > endingPeriod then
        Inl (Panic ''startingPeriod cannot be greater than endingPeriod'')
      else if stake < 0 then
        Inl (Panic ''stake should not be negative'')
      else
        let starting = GetValidatorHistoricalRewards s (GetOperator val) startingPeriod;
            ending = GetValidatorHistoricalRewards s (GetOperator val) endingPeriod
        in case DecCoins_Sub (CumulativeRewardRatio ending) (CumulativeRewardRatio starting) of
             Inl p \<Rightarrow> Inl p
           | Inr difference \<Rightarrow>
               if IsAnyNegative difference then
                 Inl (Panic ''negative rewards should not be possible'')
               else Inr (MulDecTruncate difference stake))"

text \<open>The handler that \<^verbatim>\<open>CalculateDelegationRewards\<close> runs on each slash event
  visited; it carries the rewards, the stake and the starting period from one event to
  the next and never asks the iteration to stop.\<close>

fun slashEventHandler ::
    "'b Store \<Rightarrow> ValidatorI \<Rightarrow> (64 word \<times> ValidatorSlashEvent) list
      \<Rightarrow> DecCoins \<times> Dec \<times> 64 word \<Rightarrow> panic + DecCoins \<times> Dec \<times> 64 word" where
  "slashEventHandler s val [] acc = Inr acc"
| "slashEventHandler s val ((height, event) # events) (rewards, stake, startingPeriod) =
     (let endingPeriod = ValidatorPeriod event in
      if endingPeriod > startingPeriod then
        (case calculateDelegationRewardsBetween s val startingPeriod endingPeriod stake of
           Inl p \<Rightarrow> Inl p
         | Inr reward \<Rightarrow>
             slashEventHandler s val events
               (DecCoins_Add rewards reward,
                MulTruncate stake (OneDec - Fraction event),
                endingPeriod))
      else slashEventHandler s val events (rewards, stake, startingPeriod))"

text \<open>The sanity check on the total stake, and the correction of a rounding
  difference of at most three units of the last decimal place.\<close>

definition finalStake :: "Dec \<Rightarrow> Dec \<Rightarrow> panic + Dec" where
  "finalStake stake currentStake =
     (if stake > currentStake then
        (let marginOfErr = MulInt64 SmallestDec 3 in
         if stake \<le> currentStake + marginOfErr then Inr currentStake
         else Inl (Panic ''calculated final stake for delegator greater than current stake''))
      else Inr stake)"

text \<open>\<^verbatim>\<open>CalculateDelegationRewards\<close>: the total rewards accrued by a delegation.\<close>

definition CalculateDelegationRewards ::
    "'b Keeper \<Rightarrow> 'b Store \<Rightarrow> ValidatorI \<Rightarrow> DelegationI \<Rightarrow> 64 word \<Rightarrow> panic + DecCoins" where
  "CalculateDelegationRewards k s val del endingPeriod =
     (let validatorAddr = GetOperator val;
          delegationAddr = GetDelegatorAddr del;
          startingInfo = GetDelegatorStartingInfo s validatorAddr delegationAddr
      in
      if Height startingInfo = BlockHeight s then Inr []
      else
        let startingPeriod = PreviousPeriod startingInfo;
            stake = Stake startingInfo;
            startingHeight = Height startingInfo;
            endingHeight = BlockHeight s;
            visited =
              (if endingHeight > startingHeight then
                 IterateValidatorSlashEventsBetween k s validatorAddr startingHeight endingHeight
               else [])
        in case slashEventHandler s val visited ([], stake, startingPeriod) of
             Inl p \<Rightarrow> Inl p
           | Inr (rewards, stake, startingPeriod) \<Rightarrow>
               (let currentStake = TokensFromShares val (GetShares del) in
                case finalStake stake currentStake of
                  Inl p \<Rightarrow> Inl p
                | Inr stake \<Rightarrow>
                    (case calculateDelegationRewardsBetween s val startingPeriod endingPeriod stake of
                       Inl p \<Rightarrow> Inl p
                     | Inr reward \<Rightarrow> Inr (DecCoins_Add rewards reward))))"

section \<open>The keeper: withdrawal\<close>

datatype error = ErrEmptyDelegationDistInfo | TransferError string

text \<open>What a call of a function that returns a value or an error does: it returns
  the value, or returns the error, each with the store it leaves, or it panics.\<close>

datatype ('a, 's) outcome = Returned 'a 's | Failed error 's | Panicked panic

text \<open>The loop of \<^verbatim>\<open>withdrawDelegationRewards\<close> that builds the claimed rewards
  from the outstanding coins and the caller's maximum amounts.\<close>

fun claimedRewards_from :: "DecCoins \<Rightarrow> DecCoins \<Rightarrow> DecCoins \<Rightarrow> DecCoins" where
  "claimedRewards_from claimedRewards [] maxAmts = claimedRewards"
| "claimedRewards_from claimedRewards (decCoin # outstanding) maxAmts =
     (let maxAmt = MaxDec (snd decCoin) (AmountOf maxAmts (fst decCoin)) in
      claimedRewards_from
        (DecCoins_Add claimedRewards [NewDecCoinFromDec (fst decCoin) maxAmt])
        outstanding maxAmts)"

text \<open>The coins the event of a withdrawal shows: the coins paid, or one zero coin of
  the base denomination when nothing was paid.\<close>

definition emittedRewards :: "'b Keeper \<Rightarrow> Coins \<Rightarrow> Coins" where
  "emittedRewards k finalRewards =
     (if Coins_IsZero finalRewards then
        (let baseDenom = GetBaseDenom k;
             baseDenom = (if baseDenom = [] then DefaultBondDenom else baseDenom)
         in [(baseDenom, 0)])
      else finalRewards)"

text \<open>\<^verbatim>\<open>withdrawDelegationRewards\<close>. The second declaration of \<^verbatim>\<open>outstanding\<close>
  replaces the first: from there on the name stands for the delegation's accumulator
  plus the rewards. The informational log line leaves the store as it is, and the copy
  \<^verbatim>\<open>outstandingCpy\<close> is never read; neither has a counterpart here.\<close>

definition withdrawDelegationRewards ::
    "'b Keeper \<Rightarrow> ValidatorI \<Rightarrow> DelegationI \<Rightarrow> Coins \<Rightarrow> 'b Store \<Rightarrow> (Coins, 'b Store) outcome" where
  "withdrawDelegationRewards k validator delegation maxAmounts s =
     (let validatorAddr = GetOperator validator;
          delegatorAddr = GetDelegatorAddr delegation;
          maxAmts = DecCoins_Sort (NewDecCoinsFromCoins maxAmounts)
      in
      if \<not> HasDelegatorStartingInfo s validatorAddr delegatorAddr then
        Failed ErrEmptyDelegationDistInfo s
      else
        let (endingPeriod, s1) = IncrementValidatorPeriod k validator s in
        case CalculateDelegationRewards k s1 validator delegation endingPeriod of
          Inl p \<Rightarrow> Panicked p
        | Inr rewardsRaw \<Rightarrow>
            (let outstanding = GetValidatorOutstandingRewardsCoins s1 validatorAddr;
                 rewards = Intersect rewardsRaw outstanding;
                 outstanding = DelegationOutstandingRewards k s1 delegatorAddr validatorAddr;
                 outstanding = DecCoins_Add outstanding rewards;
                 claimedRewards = claimedRewards_from [] outstanding maxAmts;
                 (finalRewards, remainder) = TruncateDecimal claimedRewards;
                 (err, s2) =
                   (if \<not> Coins_IsZero finalRewards then
                      (let withdrawAddr = GetDelegatorWithdrawAddr s1 delegatorAddr;
                           (err, bank) =
                             SendCoinsFromModuleToAccount k ModuleName withdrawAddr
                               finalRewards (Bank s1)
                       in (err, s1\<lparr>Bank := bank\<rparr>))
                    else (None, s1))
             in case err of
                  Some e \<Rightarrow> Failed (TransferError e) s2
                | None \<Rightarrow>
                    (case DecCoins_Sub outstanding rewards of
                       Inl p \<Rightarrow> Panicked p
                     | Inr newOutstanding \<Rightarrow>
                         (let s3 = SetValidatorOutstandingRewards validatorAddr newOutstanding s2;
                              feePool = GetFeePool s3;
                              feePool = feePool
                                \<lparr>CommunityPool := DecCoins_Add (CommunityPool feePool) remainder\<rparr>;
                              s4 = SetFeePool feePool s3;
                              startingInfo = GetDelegatorStartingInfo s4 validatorAddr delegatorAddr;
                              startingPeriod = PreviousPeriod startingInfo;
                              s5 = decrementReferenceCount validatorAddr startingPeriod s4;
                              s6 = DeleteDelegatorStartingInfo validatorAddr delegatorAddr s5;
                              s7 = EmitEvent
                                \<lparr>EventType = EventTypeWithdrawRewards,
                                 Attributes =
                                   [(AttributeKeyAmount, Coins_String (emittedRewards k finalRewards)),
                                    (AttributeKeyValidator, validatorAddr)]\<rparr> s6
                          in Returned finalRewards s7))))"

section \<open>Notions used in the statements\<close>

text \<open>A coin set is well formed when its denominations are in strictly ascending
  order, so that no denomination occurs twice.\<close>

definition sortedByDenom :: "DecCoins \<Rightarrow> bool" where
  "sortedByDenom coins = sorted_wrt (<) (map fst coins)"

text \<open>The bookkeeping of \<^verbatim>\<open>withdrawDelegationRewards\<close> once the transfer has
  succeeded, as one function of the store: the statements from the update of the
  outstanding rewards to the event.\<close>

definition settle ::
    "'b Keeper \<Rightarrow> ValidatorI \<Rightarrow> DelegationI \<Rightarrow> Coins \<Rightarrow> DecCoins \<Rightarrow> DecCoins \<Rightarrow> 'b Store \<Rightarrow> 'b Store" where
  "settle k validator delegation finalRewards remainder newOutstanding s2 =
     (let validatorAddr = GetOperator validator;
          delegatorAddr = GetDelegatorAddr delegation;
          s3 = SetValidatorOutstandingRewards validatorAddr newOutstanding s2;
          feePool = GetFeePool s3;
          feePool = feePool\<lparr>CommunityPool := DecCoins_Add (CommunityPool feePool) remainder\<rparr>;
          s4 = SetFeePool feePool s3;
          startingInfo = GetDelegatorStartingInfo s4 validatorAddr delegatorAddr;
          startingPeriod = PreviousPeriod startingInfo;
          s5 = decrementReferenceCount validatorAddr startingPeriod s4;
          s6 = DeleteDelegatorStartingInfo validatorAddr delegatorAddr s5
      in EmitEvent
           \<lparr>EventType = EventTypeWithdrawRewards,
            Attributes =
              [(AttributeKeyAmount, Coins_String (emittedRewards k finalRewards)),
               (AttributeKeyValidator, validatorAddr)]\<rparr> s6)"

text \<open>The value returned and the store left by a call.\<close>

fun outcome_value :: "('a, 's) outcome \<Rightarrow> 'a option" where
  "outcome_value (Returned a s) = Some a"
| "outcome_value (Failed e s) = None"
| "outcome_value (Panicked p) = None"

fun outcome_store :: "('a, 's) outcome \<Rightarrow> 's option" where
  "outcome_store (Returned a s) = Some s"
| "outcome_store (Failed e s) = Some s"
| "outcome_store (Panicked p) = None"

text \<open>An example: a validator \<open>val\<close> whose periods 1 and 2 have the cumulative
  ratios 1 and 2 of the denomination \<open>stake\<close>, and a delegator \<open>del\<close> whose stake
  dates from period 1 and height 1; the block height is 5. The validator's current
  stake falls short of the delegator's shares by \<open>drift\<close> units; the bank accepts
  or refuses every transfer; the iteration over slash events visits \<open>events\<close>.\<close>

definition example_validator :: "int \<Rightarrow> ValidatorI" where
  "example_validator drift =
     \<lparr>GetOperator = ''val'',
      TokensFromShares = (\<lambda>shares. shares - drift),
      TokensFromSharesTruncated = (\<lambda>shares. shares)\<rparr>"

definition example_delegation :: "Dec \<Rightarrow> DelegationI" where
  "example_delegation shares = \<lparr>GetDelegatorAddr = ''del'', GetShares = shares\<rparr>"

definition example_store :: "Dec \<Rightarrow> (string \<times> Coins) list Store" where
  "example_store stake =
     \<lparr>BlockHeight = 5,
      StartingInfos = [(''val'', ''del'') \<mapsto> \<lparr>PreviousPeriod = 1, Stake = stake, Height = 1\<rparr>],
      HistoricalRewards =
        [(''val'', 1) \<mapsto> \<lparr>CumulativeRewardRatio = [(''stake'', Precision)], ReferenceCount = 2\<rparr>,
         (''val'', 2) \<mapsto> \<lparr>CumulativeRewardRatio = [(''stake'', 2 * Precision)], ReferenceCount = 1\<rparr>],
      CurrentRewards = [''val'' \<mapsto> \<lparr>Rewards = [], Period = 2\<rparr>],
      OutstandingRewards = [''val'' \<mapsto> [(''stake'', 100 * Precision)]],
      TheFeePool = \<lparr>CommunityPool = []\<rparr>,
      WithdrawAddrs = Map.empty,
      Events = [],
      Bank = []\<rparr>"

definition example_keeper ::
    "bool \<Rightarrow> (64 word \<times> ValidatorSlashEvent) list \<Rightarrow> (string \<times> Coins) list Keeper" where
  "example_keeper ok events =
     \<lparr>IncrementValidatorPeriod =
        (\<lambda>validator s.
           let current = GetValidatorCurrentRewards s (GetOperator validator) in
           (Period current,
            s\<lparr>CurrentRewards :=
                (CurrentRewards s)(GetOperator validator \<mapsto> current\<lparr>Period := Period current + 1\<rparr>)\<rparr>)),
      DelegationOutstandingRewards = (\<lambda>s del val. []),
      IterateValidatorSlashEventsBetween = (\<lambda>s val startingHeight endingHeight. events),
      stakingKeeper_Validator = (\<lambda>s val. example_validator 0),
      stakingKeeper_Delegation = (\<lambda>s del val. example_delegation (10 * Precision)),
      SendCoinsFromModuleToAccount =
        (\<lambda>module addr coins bank.
           if ok then (None, bank @ [(addr, coins)]) else (Some ''insufficient funds'', bank)),
      GetBaseDenom = []\<rparr>"


section \<open>Coin sets: sums, order and signs\<close>

lemma sortedByDenom_Nil [simp]: "sortedByDenom []"
  by (simp add: sortedByDenom_def)

lemma sortedByDenom_Cons:
  "sortedByDenom (c # cs) \<longleftrightarrow> (\<forall>k \<in> fst ` set cs. fst c < k) \<and> sortedByDenom cs"
  by (auto simp: sortedByDenom_def)

lemma AmountOf_absent: "denom \<notin> fst ` set coins \<Longrightarrow> AmountOf coins denom = 0"
  by (induction coins) auto

lemma AmountOf_member:
  "sortedByDenom coins \<Longrightarrow> coin \<in> set coins \<Longrightarrow> AmountOf coins (fst coin) = snd coin"
  by (induction coins) (auto simp: sortedByDenom_Cons)

lemma removeZero_keys: "fst ` set (removeZeroDecCoins coins) \<subseteq> fst ` set coins"
  by (auto simp: removeZeroDecCoins_def)

lemma AmountOf_removeZero:
  "sortedByDenom coins \<Longrightarrow> AmountOf (removeZeroDecCoins coins) denom = AmountOf coins denom"
proof (induction coins)
  case Nil
  then show ?case by (simp add: removeZeroDecCoins_def)
next
  case (Cons c cs)
  have "fst c \<notin> fst ` set cs" using Cons.prems by (auto simp: sortedByDenom_Cons)
  then have "fst c \<notin> fst ` set (removeZeroDecCoins cs)" using removeZero_keys[of cs] by blast
  then have z: "AmountOf (removeZeroDecCoins cs) (fst c) = 0"
    by (rule AmountOf_absent)
  have ih: "AmountOf (removeZeroDecCoins cs) denom = AmountOf cs denom"
    using Cons by (simp add: sortedByDenom_Cons)
  have r: "removeZeroDecCoins (c # cs) = (if snd c \<noteq> 0 then [c] else []) @ removeZeroDecCoins cs"
    by (simp add: removeZeroDecCoins_def)
  show ?case using z ih unfolding r by auto
qed



lemma safeAdd_keys: "fst ` set (safeAdd a b) \<subseteq> fst ` set a \<union> fst ` set b"
proof (induction a b rule: safeAdd.induct)
  case (1 coinsB)
  then show ?case using removeZero_keys[of coinsB] by simp
next
  case (2 coinA coins)
  then show ?case using removeZero_keys[of "coinA # coins"] by simp
next
  case (3 coinA coins coinB coinsB)
  consider (lt) "fst coinA < fst coinB" | (eq) "fst coinA = fst coinB"
    | (gt) "\<not> fst coinA < fst coinB" "fst coinA \<noteq> fst coinB"
    by blast
  then show ?case
  proof cases
    case lt
    from "3.IH"(1)[OF lt] lt show ?thesis by auto
  next
    case eq
    from "3.IH"(2)[OF _ eq] eq show ?thesis by auto
  next
    case gt
    from "3.IH"(3)[OF gt] gt show ?thesis by auto
  qed
qed

lemma AmountOf_append:
  "AmountOf (xs @ ys) denom = (if denom \<in> fst ` set xs then AmountOf xs denom else AmountOf ys denom)"
  by (induction xs) auto
lemma sortedByDenom_removeZero: "sortedByDenom coins \<Longrightarrow> sortedByDenom (removeZeroDecCoins coins)"
  by (simp add: sortedByDenom_def removeZeroDecCoins_def sorted_wrt_map sorted_wrt_filter)

lemma sortedByDenom_prepend:
  "sortedByDenom cs \<Longrightarrow> \<forall>k \<in> fst ` set cs. fst c < k \<Longrightarrow>
   sortedByDenom ((if P then [c] else []) @ cs)"
  by (simp add: sortedByDenom_Cons)

lemma safeAdd_sorted:
  "sortedByDenom a \<Longrightarrow> sortedByDenom b \<Longrightarrow> sortedByDenom (safeAdd a b)"
proof (induction a b rule: safeAdd.induct)
  case (1 coinsB)
  then show ?case by (simp add: sortedByDenom_removeZero)
next
  case (2 coinA coins)
  then show ?case using sortedByDenom_removeZero[of "coinA # coins"] by simp
next
  case (3 coinA coins coinB coinsB)
  let ?da = "fst coinA" and ?db = "fst coinB"
  from "3.prems" have sa: "sortedByDenom coins" and sb: "sortedByDenom coinsB"
    and la: "\<forall>k \<in> fst ` set coins. ?da < k" and lb: "\<forall>k \<in> fst ` set coinsB. ?db < k"
    by (simp_all add: sortedByDenom_Cons)
  consider (lt) "?da < ?db" | (eq) "?da = ?db" | (gt) "?db < ?da"
    by (meson linorder_less_linear)
  then show ?case
  proof cases
    case lt
    have s: "sortedByDenom (safeAdd coins (coinB # coinsB))"
      using "3.IH"(1)[OF lt sa "3.prems"(2)] .
    have "\<forall>k \<in> fst ` set (safeAdd coins (coinB # coinsB)). ?da < k"
      using safeAdd_keys[of coins "coinB # coinsB"] la lb lt by fastforce
    with s have "sortedByDenom ((if snd coinA \<noteq> 0 then [coinA] else []) @ safeAdd coins (coinB # coinsB))"
      by (rule sortedByDenom_prepend)
    with lt show ?thesis by simp
  next
    case eq
    have s: "sortedByDenom (safeAdd coins coinsB)"
      using "3.IH"(2)[OF _ eq sa sb] eq by simp
    have "\<forall>k \<in> fst ` set (safeAdd coins coinsB). ?da < k"
      using safeAdd_keys[of coins coinsB] la lb eq by fastforce
    with s have "sortedByDenom ((if snd coinA + snd coinB \<noteq> 0 then [(?da, snd coinA + snd coinB)] else []) @ safeAdd coins coinsB)"
      by (intro sortedByDenom_prepend) simp_all
    with eq show ?thesis by simp
  next
    case gt
    then have n1: "\<not> ?da < ?db" and n2: "?da \<noteq> ?db" by auto
    have s: "sortedByDenom (safeAdd (coinA # coins) coinsB)"
      using "3.IH"(3)[OF n1 n2 "3.prems"(1) sb] .
    have "\<forall>k \<in> fst ` set (safeAdd (coinA # coins) coinsB). ?db < k"
      using safeAdd_keys[of "coinA # coins" coinsB] la lb gt by fastforce
    with s have "sortedByDenom ((if snd coinB \<noteq> 0 then [coinB] else []) @ safeAdd (coinA # coins) coinsB)"
      by (rule sortedByDenom_prepend)
    with n1 n2 show ?thesis by simp
  qed
qed

lemma AmountOf_prepend:
  "AmountOf ((if P then [c] else []) @ cs) denom =
     (if P \<and> fst c = denom then snd c else AmountOf cs denom)"
  by simp

lemma safeAdd_AmountOf:
  "sortedByDenom a \<Longrightarrow> sortedByDenom b \<Longrightarrow>
   AmountOf (safeAdd a b) denom = AmountOf a denom + AmountOf b denom"
proof (induction a b rule: safeAdd.induct)
  case (1 coinsB)
  then show ?case by (simp add: AmountOf_removeZero)
next
  case (2 coinA coins)
  then show ?case using AmountOf_removeZero[of "coinA # coins"] by simp
next
  case (3 coinA coins coinB coinsB)
  let ?da = "fst coinA" and ?db = "fst coinB"
  from "3.prems" have sa: "sortedByDenom coins" and sb: "sortedByDenom coinsB"
    and la: "\<forall>k \<in> fst ` set coins. ?da < k" and lb: "\<forall>k \<in> fst ` set coinsB. ?db < k"
    by (simp_all add: sortedByDenom_Cons)
  have za: "AmountOf coins ?da = 0" using la by (intro AmountOf_absent) auto
  have zb: "AmountOf coinsB ?db = 0" using lb by (intro AmountOf_absent) auto
  consider (lt) "?da < ?db" | (eq) "?da = ?db" | (gt) "?db < ?da"
    by (meson linorder_less_linear)
  then show ?case
  proof cases
    case lt
    have ih: "AmountOf (safeAdd coins (coinB # coinsB)) denom = AmountOf coins denom + AmountOf (coinB # coinsB) denom"
      using "3.IH"(1)[OF lt sa "3.prems"(2)] .
    have zb': "AmountOf coinsB ?da = 0" using lb lt by (intro AmountOf_absent) fastforce
    have "safeAdd (coinA # coins) (coinB # coinsB) =
        (if snd coinA \<noteq> 0 then [coinA] else []) @ safeAdd coins (coinB # coinsB)"
      using lt by simp
    then show ?thesis using ih za zb' lt by (simp only: AmountOf_prepend) auto
  next
    case eq
    have ih: "AmountOf (safeAdd coins coinsB) denom = AmountOf coins denom + AmountOf coinsB denom"
      using "3.IH"(2)[OF _ eq sa sb] eq by simp
    have "safeAdd (coinA # coins) (coinB # coinsB) =
        (if snd coinA + snd coinB \<noteq> 0 then [(?da, snd coinA + snd coinB)] else []) @ safeAdd coins coinsB"
      using eq by simp
    then show ?thesis using ih za zb eq by (simp only: AmountOf_prepend) auto
  next
    case gt
    then have n1: "\<not> ?da < ?db" and n2: "?da \<noteq> ?db" by auto
    have ih: "AmountOf (safeAdd (coinA # coins) coinsB) denom = AmountOf (coinA # coins) denom + AmountOf coinsB denom"
      using "3.IH"(3)[OF n1 n2 "3.prems"(1) sb] .
    have za': "AmountOf coins ?db = 0" using la gt by (intro AmountOf_absent) fastforce
    have "safeAdd (coinA # coins) (coinB # coinsB) =
        (if snd coinB \<noteq> 0 then [coinB] else []) @ safeAdd (coinA # coins) coinsB"
      using n1 n2 by simp
    then show ?thesis using ih za' zb n1 n2 gt by (simp only: AmountOf_prepend) auto
  qed
qed

lemma sortedByDenom_negative: "sortedByDenom (negative coins) = sortedByDenom coins"
  by (simp add: sortedByDenom_def negative_def comp_def)

lemma AmountOf_negative: "AmountOf (negative coins) denom = - AmountOf coins denom"
  by (induction coins) (simp_all add: negative_def)

lemma IsAnyNegative_iff: "IsAnyNegative coins \<longleftrightarrow> (\<exists>coin \<in> set coins. snd coin < 0)"
  by (simp add: IsAnyNegative_def list_ex_iff)

lemma AmountOf_in_set:
  "AmountOf coins denom \<noteq> 0 \<Longrightarrow> (denom, AmountOf coins denom) \<in> set coins"
  by (induction coins) (auto split: if_splits)

lemma IsAnyNegative_AmountOf:
  "sortedByDenom coins \<Longrightarrow> IsAnyNegative coins \<longleftrightarrow> (\<exists>denom. AmountOf coins denom < 0)"
proof
  assume s: "sortedByDenom coins" and "IsAnyNegative coins"
  then obtain coin where c: "coin \<in> set coins" "snd coin < 0"
    by (auto simp: IsAnyNegative_iff)
  with s have "AmountOf coins (fst coin) < 0" by (simp add: AmountOf_member)
  then show "\<exists>denom. AmountOf coins denom < 0" ..
next
  assume "\<exists>denom. AmountOf coins denom < 0"
  then obtain denom where d: "AmountOf coins denom < 0" ..
  then have "(denom, AmountOf coins denom) \<in> set coins" by (intro AmountOf_in_set) simp
  with d show "IsAnyNegative coins" by (force simp: IsAnyNegative_iff)
qed

lemma Precision_pos: "0 < Precision"
  by (simp add: Precision_def)

lemma MulTruncate_zero [simp]: "MulTruncate 0 d = 0"
  by (simp add: MulTruncate_def)

lemma MulTruncate_nonneg:
  "0 \<le> a \<Longrightarrow> 0 \<le> d \<Longrightarrow> MulTruncate a d = (a * d) div Precision"
proof -
  assume "0 \<le> a" "0 \<le> d"
  then have "0 \<le> a * d" by simp
  then show ?thesis using Precision_pos
    by (cases "a * d = 0") (auto simp add: MulTruncate_def signed_divide_int_def sgn_if)
qed



lemma MulDecTruncate_from_AmountOf:
  "sortedByDenom res \<Longrightarrow> sortedByDenom coins \<Longrightarrow>
   AmountOf (MulDecTruncate_from res coins d) denom =
     AmountOf res denom + MulTruncate (AmountOf coins denom) d"
proof (induction res coins d rule: MulDecTruncate_from.induct)
  case (1 res d)
  then show ?case by simp
next
  case (2 res coin coins d)
  let ?product = "(fst coin, MulTruncate (snd coin) d)"
  let ?res = "if snd ?product \<noteq> 0 then DecCoins_Add res [?product] else res"
  have sres: "sortedByDenom ?res"
    using "2.prems"(1) by (simp add: DecCoins_Add_def safeAdd_sorted sortedByDenom_Cons)
  have scoins: "sortedByDenom coins" and lt: "\<forall>k \<in> fst ` set coins. fst coin < k"
    using "2.prems"(2) by (simp_all add: sortedByDenom_Cons)
  have ih: "AmountOf (MulDecTruncate_from ?res coins d) denom =
      AmountOf ?res denom + MulTruncate (AmountOf coins denom) d"
    using "2.IH"[OF refl sres scoins] .
  have res: "AmountOf ?res denom =
      AmountOf res denom + (if fst coin = denom then MulTruncate (snd coin) d else 0)"
    using "2.prems"(1)
    by (simp add: DecCoins_Add_def safeAdd_AmountOf sortedByDenom_Cons)
  have z: "fst coin = denom \<Longrightarrow> AmountOf coins denom = 0"
    using lt by (intro AmountOf_absent) auto
  show ?case using ih res z by (simp add: Let_def)
qed

lemma MulDecTruncate_AmountOf:
  "sortedByDenom coins \<Longrightarrow>
   AmountOf (MulDecTruncate coins d) denom = MulTruncate (AmountOf coins denom) d"
  by (simp add: MulDecTruncate_def MulDecTruncate_from_AmountOf)












lemma TruncateInt_zero [simp]: "TruncateInt 0 = 0"
  by (simp add: TruncateInt_def)




section \<open>Evaluation of the example\<close>

lemmas example_defs =
  example_validator_def example_delegation_def example_store_def example_keeper_def

lemmas coin_defs =
  DecCoins_Sub_def negative_def IsAnyNegative_def MulDecTruncate_def MulTruncate_def
  DecCoins_Add_def Coins_Add_def removeZeroDecCoins_def removeZeroCoins_def Precision_def
  DecCoins_Sort_def NewDecCoinsFromCoins_def NewCoins_def ToDec_def Intersect_def MinDec_def
  MaxDec_def NewDecCoinFromDec_def TruncateDecimal_def TruncateInt_def Coins_IsZero_def
  OneDec_def SmallestDec_def MulInt64_def Coin_String_def Int_String_def digit_char_def
  sortedByDenom_def

lemmas keeper_defs =
  CalculateDelegationRewards_def calculateDelegationRewardsBetween_def finalStake_def
  withdrawDelegationRewards_def initializeDelegation_def emittedRewards_def
  GetDelegatorStartingInfo_def HasDelegatorStartingInfo_def SetDelegatorStartingInfo_def
  DeleteDelegatorStartingInfo_def NewDelegatorStartingInfo_def GetValidatorHistoricalRewards_def
  SetValidatorHistoricalRewards_def GetValidatorCurrentRewards_def
  GetValidatorOutstandingRewardsCoins_def SetValidatorOutstandingRewards_def GetFeePool_def
  SetFeePool_def GetDelegatorWithdrawAddr_def EmitEvent_def incrementReferenceCount_def
  decrementReferenceCount_def ModuleName_def DefaultBondDenom_def EventTypeWithdrawRewards_def
  AttributeKeyAmount_def AttributeKeyValidator_def

lemmas eval_defs = example_defs keeper_defs coin_defs Let_def


section \<open>Rewards between two periods\<close>

text \<open>Claim C5: when \<open>startingPeriod \<le> endingPeriod\<close>, the stake is not negative and
  the cumulative ratio of the ending period is, in every denomination, at least that of
  the starting period, \<^verbatim>\<open>calculateDelegationRewardsBetween\<close> returns, in every
  denomination, the difference of the two ratios times the stake, truncated to the
  precision of a decimal. (The ratios are well-formed coin sets.)\<close>

theorem rewards_between:
  assumes "startingPeriod \<le> endingPeriod" and "0 \<le> stake"
    and "starting = CumulativeRewardRatio (GetValidatorHistoricalRewards s (GetOperator val) startingPeriod)"
    and "ending = CumulativeRewardRatio (GetValidatorHistoricalRewards s (GetOperator val) endingPeriod)"
    and "sortedByDenom starting" and "sortedByDenom ending"
    and "\<forall>denom. 0 \<le> AmountOf ending denom - AmountOf starting denom"
  shows "\<exists>rewards.
      calculateDelegationRewardsBetween s val startingPeriod endingPeriod stake = Inr rewards \<and>
      (\<forall>denom. AmountOf rewards denom =
         ((AmountOf ending denom - AmountOf starting denom) * stake) div Precision)"
proof -
  let ?difference = "safeAdd ending (negative starting)"
  have sd: "sortedByDenom ?difference"
    using assms(5,6) by (simp add: safeAdd_sorted sortedByDenom_negative)
  have ad: "AmountOf ?difference denom = AmountOf ending denom - AmountOf starting denom" for denom
    using assms(5,6) by (simp add: safeAdd_AmountOf sortedByDenom_negative AmountOf_negative)
  have nn: "\<not> IsAnyNegative ?difference"
    using assms(7) sd ad by (simp add: IsAnyNegative_AmountOf not_less)
  have sub: "DecCoins_Sub ending starting = Inr ?difference"
    using nn by (simp add: DecCoins_Sub_def Let_def)
  have res: "calculateDelegationRewardsBetween s val startingPeriod endingPeriod stake =
      Inr (MulDecTruncate ?difference stake)"
    using assms(1,2) sub nn
    by (simp add: calculateDelegationRewardsBetween_def Let_def assms(3)[symmetric] assms(4)[symmetric] not_less)
  have "AmountOf (MulDecTruncate ?difference stake) denom =
      ((AmountOf ending denom - AmountOf starting denom) * stake) div Precision" for denom
    using assms(2,7) sd by (simp add: MulDecTruncate_AmountOf ad MulTruncate_nonneg)
  with res show ?thesis by blast
qed

theorem rewards_between_witness:
  "\<exists>rewards.
     calculateDelegationRewardsBetween (example_store (10 * Precision)) (example_validator 0) 1 2
       (10 * Precision) = Inr rewards \<and>
     AmountOf rewards ''stake'' = 10 * Precision"
proof -
  let ?s = "example_store (10 * Precision)" and ?v = "example_validator 0"
  have h1: "(1 :: 64 word) \<le> 2" by simp
  have h2: "(0 :: int) \<le> 10 * Precision" by (simp add: Precision_def)
  have h3: "[(''stake'', Precision)] =
      CumulativeRewardRatio (GetValidatorHistoricalRewards ?s (GetOperator ?v) 1)"
    by (simp add: example_defs keeper_defs)
  have h4: "[(''stake'', 2 * Precision)] =
      CumulativeRewardRatio (GetValidatorHistoricalRewards ?s (GetOperator ?v) 2)"
    by (simp add: example_defs keeper_defs)
  have h5: "sortedByDenom [(''stake'', Precision)]" by (simp add: sortedByDenom_def)
  have h6: "sortedByDenom [(''stake'', 2 * Precision)]" by (simp add: sortedByDenom_def)
  have h7: "\<forall>denom. 0 \<le> AmountOf [(''stake'', 2 * Precision)] denom - AmountOf [(''stake'', Precision)] denom"
    by (simp add: Precision_def)
  from rewards_between[OF h1 h2 h3 h4 h5 h6 h7]
  show ?thesis by (auto simp: Precision_def)
qed


section \<open>The walk over the slash events\<close>

text \<open>Claim C7: the events are handled in the order in which the iteration visits
  them, and handling one more event \<open>event\<close> after \<open>events\<close> does this: when the period
  of \<open>event\<close> is greater than the running starting period, the rewards between the
  starting period and the period of the event, at the running stake, are added to the
  rewards, the stake becomes the stake times one minus the fraction of the event,
  truncated, and the starting period becomes the period of the event; otherwise the
  rewards, the stake and the starting period stay as they are. The walk starts from no
  rewards and the stake and the previous period of the starting info, over the events
  that the iteration between the height of the starting info and the current height
  visits, and it is made only when the current height is the greater of the two. (Which
  events lie between two heights is decided by the iteration of the store.)\<close>

theorem slash_event_step:
  "slashEventHandler s val (events @ [(height, event)]) acc =
     (case slashEventHandler s val events acc of
        Inl p \<Rightarrow> Inl p
      | Inr (rewards, stake, startingPeriod) \<Rightarrow>
          if ValidatorPeriod event > startingPeriod then
            (case calculateDelegationRewardsBetween s val startingPeriod (ValidatorPeriod event) stake of
               Inl p \<Rightarrow> Inl p
             | Inr reward \<Rightarrow>
                 Inr (DecCoins_Add rewards reward,
                      (stake * (OneDec - Fraction event)) sdiv Precision,
                      ValidatorPeriod event))
          else Inr (rewards, stake, startingPeriod))
   \<and> CalculateDelegationRewards k s val del endingPeriod =
     (if Height (GetDelegatorStartingInfo s (GetOperator val) (GetDelegatorAddr del)) = BlockHeight s
      then Inr []
      else
        case slashEventHandler s val
               (if BlockHeight s > Height (GetDelegatorStartingInfo s (GetOperator val) (GetDelegatorAddr del))
                then IterateValidatorSlashEventsBetween k s (GetOperator val)
                       (Height (GetDelegatorStartingInfo s (GetOperator val) (GetDelegatorAddr del)))
                       (BlockHeight s)
                else [])
               ([], Stake (GetDelegatorStartingInfo s (GetOperator val) (GetDelegatorAddr del)),
                PreviousPeriod (GetDelegatorStartingInfo s (GetOperator val) (GetDelegatorAddr del))) of
          Inl p \<Rightarrow> Inl p
        | Inr (rewards, stake, startingPeriod) \<Rightarrow>
            (case finalStake stake (TokensFromShares val (GetShares del)) of
               Inl p \<Rightarrow> Inl p
             | Inr stake \<Rightarrow>
                 (case calculateDelegationRewardsBetween s val startingPeriod endingPeriod stake of
                    Inl p \<Rightarrow> Inl p
                  | Inr reward \<Rightarrow> Inr (DecCoins_Add rewards reward))))"
proof -
  have step: "slashEventHandler s val (events @ [(height, event)]) acc =
     (case slashEventHandler s val events acc of
        Inl p \<Rightarrow> Inl p
      | Inr (rewards, stake, startingPeriod) \<Rightarrow>
          if ValidatorPeriod event > startingPeriod then
            (case calculateDelegationRewardsBetween s val startingPeriod (ValidatorPeriod event) stake of
               Inl p \<Rightarrow> Inl p
             | Inr reward \<Rightarrow>
                 Inr (DecCoins_Add rewards reward,
                      (stake * (OneDec - Fraction event)) sdiv Precision,
                      ValidatorPeriod event))
          else Inr (rewards, stake, startingPeriod))"
  proof (induction events arbitrary: acc)
    case Nil
    obtain rewards stake startingPeriod where acc: "acc = (rewards, stake, startingPeriod)"
      by (cases acc) auto
    show ?case by (simp add: acc Let_def MulTruncate_def split: sum.splits)
  next
    case (Cons e events)
    obtain rewards stake startingPeriod where acc: "acc = (rewards, stake, startingPeriod)"
      by (cases acc) auto
    obtain h ev where e: "e = (h, ev)" by (cases e) auto
    show ?case by (simp add: acc e Let_def Cons.IH split: sum.splits)
  qed
  have whole: "CalculateDelegationRewards k s val del endingPeriod =
     (if Height (GetDelegatorStartingInfo s (GetOperator val) (GetDelegatorAddr del)) = BlockHeight s
      then Inr []
      else
        case slashEventHandler s val
               (if BlockHeight s > Height (GetDelegatorStartingInfo s (GetOperator val) (GetDelegatorAddr del))
                then IterateValidatorSlashEventsBetween k s (GetOperator val)
                       (Height (GetDelegatorStartingInfo s (GetOperator val) (GetDelegatorAddr del)))
                       (BlockHeight s)
                else [])
               ([], Stake (GetDelegatorStartingInfo s (GetOperator val) (GetDelegatorAddr del)),
                PreviousPeriod (GetDelegatorStartingInfo s (GetOperator val) (GetDelegatorAddr del))) of
          Inl p \<Rightarrow> Inl p
        | Inr (rewards, stake, startingPeriod) \<Rightarrow>
            (case finalStake stake (TokensFromShares val (GetShares del)) of
               Inl p \<Rightarrow> Inl p
             | Inr stake \<Rightarrow>
                 (case calculateDelegationRewardsBetween s val startingPeriod endingPeriod stake of
                    Inl p \<Rightarrow> Inl p
                  | Inr reward \<Rightarrow> Inr (DecCoins_Add rewards reward))))"
    by (simp add: CalculateDelegationRewards_def Let_def split: sum.splits prod.splits)
  from step whole show ?thesis by (rule conjI)
qed

theorem slash_event_step_witness:
  "slashEventHandler (example_store (10 * Precision)) (example_validator 0)
     [(3, \<lparr>ValidatorPeriod = 2, Fraction = 500000000000000000\<rparr>)] ([], 10 * Precision, 1)
   = Inr ([(''stake'', 10 * Precision)], 5 * Precision, 2)
   \<and> CalculateDelegationRewards
       (example_keeper True [(3, \<lparr>ValidatorPeriod = 2, Fraction = 500000000000000000\<rparr>)])
       (example_store (10 * Precision)) (example_validator 0) (example_delegation (5 * Precision)) 2
     = Inr [(''stake'', 10 * Precision)]"
  using slash_event_step[of "example_store (10 * Precision)" "example_validator 0" "[]" 3
      "\<lparr>ValidatorPeriod = 2, Fraction = 500000000000000000\<rparr>" "([], 10 * Precision, 1)"
      "example_keeper True [(3, \<lparr>ValidatorPeriod = 2, Fraction = 500000000000000000\<rparr>)]"
      "example_delegation (5 * Precision)" 2]
  by (simp add: eval_defs)



section \<open>The check of the final stake\<close>

text \<open>Claim C8: after the walk over the slash events, when the running stake exceeds
  the current stake of the delegation (its shares converted to tokens) by at most three
  units of the last decimal place, the rewards of the final interval are computed at the
  current stake; when it exceeds the current stake by more, the calculation panics; when
  it does not exceed it, the running stake is used.\<close>

theorem stake_drift:
  assumes "startingInfo = GetDelegatorStartingInfo s (GetOperator val) (GetDelegatorAddr del)"
    and "Height startingInfo \<noteq> BlockHeight s"
    and "visited =
          (if BlockHeight s > Height startingInfo then
             IterateValidatorSlashEventsBetween k s (GetOperator val) (Height startingInfo) (BlockHeight s)
           else [])"
    and "slashEventHandler s val visited ([], Stake startingInfo, PreviousPeriod startingInfo) =
          Inr (rewards, stake, startingPeriod)"
    and "currentStake = TokensFromShares val (GetShares del)"
  shows "(currentStake < stake \<and> stake \<le> currentStake + 3 \<longrightarrow>
            CalculateDelegationRewards k s val del endingPeriod =
              (case calculateDelegationRewardsBetween s val startingPeriod endingPeriod currentStake of
                 Inl p \<Rightarrow> Inl p
               | Inr reward \<Rightarrow> Inr (DecCoins_Add rewards reward)))
       \<and> (currentStake + 3 < stake \<longrightarrow> isl (CalculateDelegationRewards k s val del endingPeriod))
       \<and> (stake \<le> currentStake \<longrightarrow>
            CalculateDelegationRewards k s val del endingPeriod =
              (case calculateDelegationRewardsBetween s val startingPeriod endingPeriod stake of
                 Inl p \<Rightarrow> Inl p
               | Inr reward \<Rightarrow> Inr (DecCoins_Add rewards reward)))"
  using assms(2,4)
  unfolding assms(1,3,5) CalculateDelegationRewards_def finalStake_def MulInt64_def SmallestDec_def
  by (simp add: Let_def)

theorem stake_drift_witness:
  "CalculateDelegationRewards (example_keeper True []) (example_store (10 * Precision))
     (example_validator 2) (example_delegation (10 * Precision)) 2
     = Inr [(''stake'', 10 * Precision - 2)]
   \<and> isl (CalculateDelegationRewards (example_keeper True []) (example_store (10 * Precision))
     (example_validator 4) (example_delegation (10 * Precision)) 2)"
proof -
  let ?k = "example_keeper True []" and ?s = "example_store (10 * Precision)"
    and ?d = "example_delegation (10 * Precision)"
  have info: "GetDelegatorStartingInfo ?s ''val'' ''del'' = \<lparr>PreviousPeriod = 1, Stake = 10 * Precision, Height = 1\<rparr>"
    by (simp add: example_defs keeper_defs)
  have a: "\<lparr>PreviousPeriod = 1, Stake = 10 * Precision, Height = 1\<rparr> =
      GetDelegatorStartingInfo ?s (GetOperator (example_validator drift)) (GetDelegatorAddr ?d)" for drift
    by (simp add: example_defs keeper_defs)
  have b: "Height \<lparr>PreviousPeriod = 1, Stake = 10 * Precision, Height = 1\<rparr> \<noteq> BlockHeight ?s"
    by (simp add: example_defs)
  have c: "[] = (if BlockHeight ?s > Height \<lparr>PreviousPeriod = 1, Stake = 10 * Precision, Height = 1\<rparr> then
            IterateValidatorSlashEventsBetween ?k ?s (GetOperator (example_validator drift))
              (Height \<lparr>PreviousPeriod = 1, Stake = 10 * Precision, Height = 1\<rparr>) (BlockHeight ?s)
          else [])" for drift
    by (simp add: example_defs)
  have d: "slashEventHandler ?s (example_validator drift) []
      ([], Stake \<lparr>PreviousPeriod = 1, Stake = 10 * Precision, Height = 1\<rparr>,
           PreviousPeriod \<lparr>PreviousPeriod = 1, Stake = 10 * Precision, Height = 1\<rparr>)
      = Inr ([], 10 * Precision, 1)" for drift
    by simp
  have e: "10 * Precision - drift = TokensFromShares (example_validator drift) (GetShares ?d)" for drift
    by (simp add: example_defs)
  have between: "calculateDelegationRewardsBetween ?s (example_validator 2) 1 2 (10 * Precision - 2)
      = Inr [(''stake'', 10 * Precision - 2)]"
    by (simp add: example_defs keeper_defs coin_defs Let_def)
  from stake_drift[OF a b c d e, of 2 2] stake_drift[OF a b c d e, of 4 2] between
  show ?thesis by (simp add: Precision_def DecCoins_Add_def removeZeroDecCoins_def)
qed

section \<open>Invariant violations\<close>

text \<open>Claim C6: a starting period greater than the ending period, a negative stake, a
  cumulative ratio that decreases in some denomination, and a running stake more than
  three units of the last decimal place above the current stake each make the
  calculation panic; the calculations have no error value to return, and a panic of the
  calculation leaves \<^verbatim>\<open>withdrawDelegationRewards\<close> as a panic, not as an error
  returned to the caller.\<close>

theorem invariant_violation_panics:
  assumes "starting = CumulativeRewardRatio (GetValidatorHistoricalRewards s (GetOperator val) startingPeriod)"
    and "ending = CumulativeRewardRatio (GetValidatorHistoricalRewards s (GetOperator val) endingPeriod)"
    and "startingInfo = GetDelegatorStartingInfo s (GetOperator val) (GetDelegatorAddr del)"
    and "visited =
          (if BlockHeight s > Height startingInfo then
             IterateValidatorSlashEventsBetween k s (GetOperator val) (Height startingInfo) (BlockHeight s)
           else [])"
    and "currentStake = TokensFromShares val (GetShares del)"
  shows "(endingPeriod < startingPeriod \<or> stake < 0 \<or>
          (sortedByDenom starting \<and> sortedByDenom ending \<and>
           (\<exists>denom. AmountOf ending denom < AmountOf starting denom))
         \<longrightarrow> isl (calculateDelegationRewardsBetween s val startingPeriod endingPeriod stake))
       \<and> (Height startingInfo \<noteq> BlockHeight s \<and>
          slashEventHandler s val visited ([], Stake startingInfo, PreviousPeriod startingInfo) =
            Inr (rewards, runningStake, period) \<and>
          currentStake + 3 < runningStake
         \<longrightarrow> isl (CalculateDelegationRewards k s val del endingPeriod))
       \<and> (HasDelegatorStartingInfo s0 (GetOperator val) (GetDelegatorAddr del) \<and>
          IncrementValidatorPeriod k val s0 = (endingPeriod, s) \<and>
          CalculateDelegationRewards k s val del endingPeriod = Inl p
         \<longrightarrow> withdrawDelegationRewards k val del maxAmounts s0 = Panicked p)"
proof -
  let ?difference = "safeAdd ending (negative starting)"
  have neg: "IsAnyNegative ?difference"
    if "sortedByDenom starting" "sortedByDenom ending" "AmountOf ending denom < AmountOf starting denom"
    for denom
  proof -
    have "sortedByDenom ?difference"
      using that by (simp add: safeAdd_sorted sortedByDenom_negative)
    moreover have "AmountOf ?difference denom < 0"
      using that by (simp add: safeAdd_AmountOf sortedByDenom_negative AmountOf_negative)
    ultimately show ?thesis by (auto simp: IsAnyNegative_AmountOf)
  qed
  have between: "endingPeriod < startingPeriod \<or> stake < 0 \<or>
          (sortedByDenom starting \<and> sortedByDenom ending \<and>
           (\<exists>denom. AmountOf ending denom < AmountOf starting denom))
         \<longrightarrow> isl (calculateDelegationRewardsBetween s val startingPeriod endingPeriod stake)"
    using neg
    by (auto simp: calculateDelegationRewardsBetween_def DecCoins_Sub_def Let_def
        assms(1)[symmetric] assms(2)[symmetric])
  have drift: "Height startingInfo \<noteq> BlockHeight s \<and>
          slashEventHandler s val visited ([], Stake startingInfo, PreviousPeriod startingInfo) =
            Inr (rewards, runningStake, period) \<and>
          currentStake + 3 < runningStake
         \<longrightarrow> isl (CalculateDelegationRewards k s val del endingPeriod)"
    unfolding assms(3,4,5) CalculateDelegationRewards_def finalStake_def MulInt64_def SmallestDec_def
    by (simp add: Let_def)
  have withdraw: "HasDelegatorStartingInfo s0 (GetOperator val) (GetDelegatorAddr del) \<and>
          IncrementValidatorPeriod k val s0 = (endingPeriod, s) \<and>
          CalculateDelegationRewards k s val del endingPeriod = Inl p
         \<longrightarrow> withdrawDelegationRewards k val del maxAmounts s0 = Panicked p"
    by (simp add: withdrawDelegationRewards_def Let_def)
  from between drift withdraw show ?thesis by blast
qed

theorem invariant_violation_panics_witness:
  "isl (calculateDelegationRewardsBetween (example_store (10 * Precision)) (example_validator 0) 2 1
          (10 * Precision))
   \<and> isl (calculateDelegationRewardsBetween (example_store (10 * Precision)) (example_validator 0) 1 2 (- 1))
   \<and> isl (calculateDelegationRewardsBetween (example_store (10 * Precision)) (example_validator 0) 2 2000
          (10 * Precision))
   \<and> isl (CalculateDelegationRewards (example_keeper True []) (example_store (10 * Precision))
          (example_validator 4) (example_delegation (10 * Precision)) 2)
   \<and> withdrawDelegationRewards (example_keeper True []) (example_validator 4)
        (example_delegation (10 * Precision)) [] (example_store (10 * Precision))
      = Panicked (Panic ''calculated final stake for delegator greater than current stake'')"
proof -
  let ?k = "example_keeper True []" and ?v = "example_validator 0" and ?v4 = "example_validator 4"
    and ?d = "example_delegation (10 * Precision)" and ?s = "example_store (10 * Precision)"
  let ?s1 = "?s\<lparr>CurrentRewards := [''val'' \<mapsto> \<lparr>Rewards = [], Period = 3\<rparr>]\<rparr>"
  let ?p = "Panic ''calculated final stake for delegator greater than current stake''"
  note order = invariant_violation_panics[OF refl refl refl refl refl,
      where s = ?s and val = ?v and startingPeriod = 2 and endingPeriod = 1 and stake = "10 * Precision"]
  note stake = invariant_violation_panics[OF refl refl refl refl refl,
      where s = ?s and val = ?v and startingPeriod = 1 and endingPeriod = 2 and stake = "- 1"]
  note ratio = invariant_violation_panics[OF refl refl refl refl refl,
      where s = ?s and val = ?v and startingPeriod = 2 and endingPeriod = 2000 and stake = "10 * Precision"]
  note drift = invariant_violation_panics[OF refl refl refl refl refl,
      where s = ?s and val = ?v4 and del = ?d and k = ?k and endingPeriod = 2
        and rewards = "[]" and runningStake = "10 * Precision" and period = 1]
  note panic = invariant_violation_panics[OF refl refl refl refl refl,
      where s = ?s1 and ?s0.0 = ?s and val = ?v4 and del = ?d and k = ?k and endingPeriod = 2
        and p = ?p and maxAmounts = "[]"]
  have a: "isl (calculateDelegationRewardsBetween ?s ?v 2 1 (10 * Precision))"
    using order by simp
  have b: "isl (calculateDelegationRewardsBetween ?s ?v 1 2 (- 1))"
    using stake by simp
  have "AmountOf (CumulativeRewardRatio (GetValidatorHistoricalRewards ?s (GetOperator ?v) 2000)) ''stake''
      < AmountOf (CumulativeRewardRatio (GetValidatorHistoricalRewards ?s (GetOperator ?v) 2)) ''stake''"
    by (simp add: eval_defs)
  then have "\<exists>denom.
      AmountOf (CumulativeRewardRatio (GetValidatorHistoricalRewards ?s (GetOperator ?v) 2000)) denom
      < AmountOf (CumulativeRewardRatio (GetValidatorHistoricalRewards ?s (GetOperator ?v) 2)) denom" ..
  moreover have "sortedByDenom (CumulativeRewardRatio (GetValidatorHistoricalRewards ?s (GetOperator ?v) 2000))"
    "sortedByDenom (CumulativeRewardRatio (GetValidatorHistoricalRewards ?s (GetOperator ?v) 2))"
    by (simp_all add: eval_defs)
  ultimately have c: "isl (calculateDelegationRewardsBetween ?s ?v 2 2000 (10 * Precision))"
    using ratio by blast
  have d: "isl (CalculateDelegationRewards ?k ?s ?v4 ?d 2)"
    using drift by (simp add: eval_defs)
  have "CalculateDelegationRewards ?k ?s1 ?v4 ?d 2 = Inl ?p"
    by (simp add: eval_defs)
  moreover have "IncrementValidatorPeriod ?k ?v4 ?s = (2, ?s1)"
    by (simp add: eval_defs)
  moreover have "HasDelegatorStartingInfo ?s (GetOperator ?v4) (GetDelegatorAddr ?d)"
    by (simp add: eval_defs)
  ultimately have e: "withdrawDelegationRewards ?k ?v4 ?d [] ?s = Panicked ?p"
    using panic by blast
  from a b c d e show ?thesis by blast
qed

section \<open>Withdrawal\<close>

lemma withdraw_Returned:
  assumes ret: "withdrawDelegationRewards k validator delegation maxAmounts s = Returned finalRewards s'"
    and inc: "IncrementValidatorPeriod k validator s = (endingPeriod, s1)"
  shows "\<exists>rewardsRaw remainder newOutstanding s2.
    HasDelegatorStartingInfo s (GetOperator validator) (GetDelegatorAddr delegation) \<and>
    CalculateDelegationRewards k s1 validator delegation endingPeriod = Inr rewardsRaw \<and>
    TruncateDecimal (claimedRewards_from []
        (DecCoins_Add
          (DelegationOutstandingRewards k s1 (GetDelegatorAddr delegation) (GetOperator validator))
          (Intersect rewardsRaw (GetValidatorOutstandingRewardsCoins s1 (GetOperator validator))))
        (DecCoins_Sort (NewDecCoinsFromCoins maxAmounts)))
       = (finalRewards, remainder) \<and>
    DecCoins_Sub
        (DecCoins_Add
          (DelegationOutstandingRewards k s1 (GetDelegatorAddr delegation) (GetOperator validator))
          (Intersect rewardsRaw (GetValidatorOutstandingRewardsCoins s1 (GetOperator validator))))
        (Intersect rewardsRaw (GetValidatorOutstandingRewardsCoins s1 (GetOperator validator)))
       = Inr newOutstanding \<and>
    (s2 = s1 \<or> (\<exists>bank. s2 = s1\<lparr>Bank := bank\<rparr>)) \<and>
    s' = settle k validator delegation finalRewards remainder newOutstanding s2"
proof -
  let ?val = "GetOperator validator" and ?del = "GetDelegatorAddr delegation"
  have has: "HasDelegatorStartingInfo s ?val ?del"
    using ret by (auto simp: withdrawDelegationRewards_def Let_def split: if_splits)
  obtain rewardsRaw where calc:
    "CalculateDelegationRewards k s1 validator delegation endingPeriod = Inr rewardsRaw"
    using ret has inc
    by (cases "CalculateDelegationRewards k s1 validator delegation endingPeriod")
       (auto simp: withdrawDelegationRewards_def Let_def)
  let ?rewards = "Intersect rewardsRaw (GetValidatorOutstandingRewardsCoins s1 ?val)"
  let ?outstanding = "DecCoins_Add (DelegationOutstandingRewards k s1 ?del ?val) ?rewards"
  obtain fr remainder where tr:
    "TruncateDecimal (claimedRewards_from [] ?outstanding (DecCoins_Sort (NewDecCoinsFromCoins maxAmounts)))
      = (fr, remainder)"
    by (cases "TruncateDecimal (claimedRewards_from [] ?outstanding (DecCoins_Sort (NewDecCoinsFromCoins maxAmounts)))") auto
  let ?send = "SendCoinsFromModuleToAccount k ModuleName (GetDelegatorWithdrawAddr s1 ?del) fr (Bank s1)"
  obtain err bank where send: "?send = (err, bank)" by (cases ?send) auto
  define s2 where "s2 = (if \<not> Coins_IsZero fr then s1\<lparr>Bank := bank\<rparr> else s1)"
  define err2 where "err2 = (if \<not> Coins_IsZero fr then err else None)"
  have eq: "withdrawDelegationRewards k validator delegation maxAmounts s =
      (case err2 of
         Some e \<Rightarrow> Failed (TransferError e) s2
       | None \<Rightarrow>
          (case DecCoins_Sub ?outstanding ?rewards of
             Inl p \<Rightarrow> Panicked p
           | Inr newOutstanding \<Rightarrow>
               Returned fr (settle k validator delegation fr remainder newOutstanding s2)))"
    using has inc calc tr send
    by (simp add: withdrawDelegationRewards_def settle_def Let_def s2_def err2_def
          split: option.splits sum.splits)
  from ret eq have none: "err2 = None" by (cases err2) auto
  from ret eq none obtain newOutstanding where sub:
    "DecCoins_Sub ?outstanding ?rewards = Inr newOutstanding"
    by (cases "DecCoins_Sub ?outstanding ?rewards") auto
  from ret eq none sub have fr: "fr = finalRewards"
    and s': "s' = settle k validator delegation fr remainder newOutstanding s2" by auto
  have "s2 = s1 \<or> (\<exists>bank. s2 = s1\<lparr>Bank := bank\<rparr>)" by (auto simp: s2_def)
  with has calc tr sub fr s' show ?thesis by blast
qed

lemma settle_fields:
  "StartingInfos (settle k validator delegation finalRewards remainder newOutstanding s2) =
     (StartingInfos s2)((GetOperator validator, GetDelegatorAddr delegation) := None)"
  "CurrentRewards (settle k validator delegation finalRewards remainder newOutstanding s2) = CurrentRewards s2"
  "BlockHeight (settle k validator delegation finalRewards remainder newOutstanding s2) = BlockHeight s2"
  "OutstandingRewards (settle k validator delegation finalRewards remainder newOutstanding s2) =
     (OutstandingRewards s2)(GetOperator validator \<mapsto> newOutstanding)"
  "TheFeePool (settle k validator delegation finalRewards remainder newOutstanding s2) =
     (TheFeePool s2)\<lparr>CommunityPool := DecCoins_Add (CommunityPool (TheFeePool s2)) remainder\<rparr>"
  "Events (settle k validator delegation finalRewards remainder newOutstanding s2) =
     Events s2 @
     [\<lparr>EventType = EventTypeWithdrawRewards,
       Attributes = [(AttributeKeyAmount, Coins_String (emittedRewards k finalRewards)),
                     (AttributeKeyValidator, GetOperator validator)]\<rparr>]"
  by (simp_all add: settle_def Let_def EmitEvent_def DeleteDelegatorStartingInfo_def
      decrementReferenceCount_def SetValidatorHistoricalRewards_def SetFeePool_def GetFeePool_def
      SetValidatorOutstandingRewards_def)

lemma example_withdraw:
  "withdrawDelegationRewards (example_keeper True []) (example_validator 0)
     (example_delegation (10 * Precision)) [] (example_store (10 * Precision))
   = Returned [(''stake'', 10)]
      ((example_store (10 * Precision))
        \<lparr>StartingInfos := Map.empty,
         HistoricalRewards :=
           [(''val'', 1) \<mapsto> \<lparr>CumulativeRewardRatio = [(''stake'', Precision)], ReferenceCount = 1\<rparr>,
            (''val'', 2) \<mapsto> \<lparr>CumulativeRewardRatio = [(''stake'', 2 * Precision)], ReferenceCount = 1\<rparr>],
         CurrentRewards := [''val'' \<mapsto> \<lparr>Rewards = [], Period = 3\<rparr>],
         OutstandingRewards := [''val'' \<mapsto> []],
         Events := [\<lparr>EventType = ''withdraw_rewards'',
                     Attributes = [(''amount'', ''10stake''), (''validator'', ''val'')]\<rparr>],
         Bank := [(''del'', [(''stake'', 10)])]\<rparr>)"
  by (simp add: eval_defs fun_upd_twist)

lemma example_withdraw_small:
  "withdrawDelegationRewards (example_keeper True []) (example_validator 0)
     (example_delegation 500000000000000000) [] (example_store 500000000000000000)
   = Returned []
      ((example_store 500000000000000000)
        \<lparr>StartingInfos := Map.empty,
         HistoricalRewards :=
           [(''val'', 1) \<mapsto> \<lparr>CumulativeRewardRatio = [(''stake'', Precision)], ReferenceCount = 1\<rparr>,
            (''val'', 2) \<mapsto> \<lparr>CumulativeRewardRatio = [(''stake'', 2 * Precision)], ReferenceCount = 1\<rparr>],
         CurrentRewards := [''val'' \<mapsto> \<lparr>Rewards = [], Period = 3\<rparr>],
         OutstandingRewards := [''val'' \<mapsto> []],
         TheFeePool := \<lparr>CommunityPool = [(''stake'', 500000000000000000)]\<rparr>,
         Events := [\<lparr>EventType = ''withdraw_rewards'',
                     Attributes = [(''amount'', ''0stake''), (''validator'', ''val'')]\<rparr>]\<rparr>)"
  by (simp add: eval_defs fun_upd_twist)

text \<open>Claim C3: when the transfer of the coins to the delegator fails,
  \<^verbatim>\<open>withdrawDelegationRewards\<close> returns the error of the transfer and leaves the store
  that the end of the validator's period left, but for what the bank did to its own
  state: the outstanding rewards, the community pool, the period records with their
  reference counts and the starting infos are unchanged.\<close>

theorem transfer_failure:
  assumes "HasDelegatorStartingInfo s (GetOperator validator) (GetDelegatorAddr delegation)"
    and "IncrementValidatorPeriod k validator s = (endingPeriod, s1)"
    and "CalculateDelegationRewards k s1 validator delegation endingPeriod = Inr rewardsRaw"
    and "rewards = Intersect rewardsRaw (GetValidatorOutstandingRewardsCoins s1 (GetOperator validator))"
    and "outstanding = DecCoins_Add
          (DelegationOutstandingRewards k s1 (GetDelegatorAddr delegation) (GetOperator validator)) rewards"
    and "finalRewards = fst (TruncateDecimal
          (claimedRewards_from [] outstanding (DecCoins_Sort (NewDecCoinsFromCoins maxAmounts))))"
    and "\<not> Coins_IsZero finalRewards"
    and "SendCoinsFromModuleToAccount k ModuleName
          (GetDelegatorWithdrawAddr s1 (GetDelegatorAddr delegation)) finalRewards (Bank s1) = (Some e, bank)"
  shows "withdrawDelegationRewards k validator delegation maxAmounts s =
           Failed (TransferError e) (s1\<lparr>Bank := bank\<rparr>)
         \<and> OutstandingRewards (s1\<lparr>Bank := bank\<rparr>) = OutstandingRewards s1
         \<and> TheFeePool (s1\<lparr>Bank := bank\<rparr>) = TheFeePool s1
         \<and> HistoricalRewards (s1\<lparr>Bank := bank\<rparr>) = HistoricalRewards s1
         \<and> StartingInfos (s1\<lparr>Bank := bank\<rparr>) = StartingInfos s1"
proof -
  obtain remainder where tr:
    "TruncateDecimal (claimedRewards_from []
        (DecCoins_Add
          (DelegationOutstandingRewards k s1 (GetDelegatorAddr delegation) (GetOperator validator))
          (Intersect rewardsRaw (GetValidatorOutstandingRewardsCoins s1 (GetOperator validator))))
        (DecCoins_Sort (NewDecCoinsFromCoins maxAmounts))) = (finalRewards, remainder)"
    unfolding assms(4,5,6) by (simp add: prod_eq_iff)
  have "withdrawDelegationRewards k validator delegation maxAmounts s =
      Failed (TransferError e) (s1\<lparr>Bank := bank\<rparr>)"
    using assms(1,2,3,7,8) tr
    by (simp add: withdrawDelegationRewards_def Let_def)
  then show ?thesis by simp
qed

theorem transfer_failure_witness:
  "withdrawDelegationRewards (example_keeper False []) (example_validator 0)
     (example_delegation (10 * Precision)) [] (example_store (10 * Precision))
   = Failed (TransferError ''insufficient funds'')
       ((example_store (10 * Precision))\<lparr>CurrentRewards := [''val'' \<mapsto> \<lparr>Rewards = [], Period = 3\<rparr>]\<rparr>)"
proof -
  let ?k = "example_keeper False []" and ?v = "example_validator 0"
    and ?d = "example_delegation (10 * Precision)" and ?s = "example_store (10 * Precision)"
  let ?s1 = "?s\<lparr>CurrentRewards := [''val'' \<mapsto> \<lparr>Rewards = [], Period = 3\<rparr>]\<rparr>"
  have h1: "HasDelegatorStartingInfo ?s (GetOperator ?v) (GetDelegatorAddr ?d)"
    by (simp add: eval_defs)
  have h2: "IncrementValidatorPeriod ?k ?v ?s = (2, ?s1)"
    by (simp add: eval_defs)
  have h3: "CalculateDelegationRewards ?k ?s1 ?v ?d 2 = Inr [(''stake'', 10 * Precision)]"
    by (simp add: eval_defs)
  have h4: "[(''stake'', 10 * Precision)] =
      Intersect [(''stake'', 10 * Precision)] (GetValidatorOutstandingRewardsCoins ?s1 (GetOperator ?v))"
    by (simp add: eval_defs)
  have h5: "[(''stake'', 10 * Precision)] = DecCoins_Add
      (DelegationOutstandingRewards ?k ?s1 (GetDelegatorAddr ?d) (GetOperator ?v))
      [(''stake'', 10 * Precision)]"
    by (simp add: eval_defs)
  have h6: "[(''stake'', 10)] = fst (TruncateDecimal
      (claimedRewards_from [] [(''stake'', 10 * Precision)] (DecCoins_Sort (NewDecCoinsFromCoins []))))"
    by (simp add: eval_defs)
  have h7: "\<not> Coins_IsZero [(''stake'', 10)]" by (simp add: Coins_IsZero_def)
  have h8: "SendCoinsFromModuleToAccount ?k ModuleName
      (GetDelegatorWithdrawAddr ?s1 (GetDelegatorAddr ?d)) [(''stake'', 10)] (Bank ?s1)
      = (Some ''insufficient funds'', [])"
    by (simp add: eval_defs)
  from transfer_failure[OF h1 h2 h3 h4 h5 h6 h7 h8]
  show ?thesis by (simp add: example_store_def)
qed

text \<open>Claim C1 states that the amount claimed is the lesser of the rewards owed and the
  caller's maximum, so that a maximum below the rewards owed is what is paid. The
  function takes the greater of the two: with 10 \<open>stake\<close> owed, a maximum of 4 pays 10
  and a maximum of 40 pays 40.\<close>

theorem cap_below_owed:
  "outcome_value
     (withdrawDelegationRewards (example_keeper True []) (example_validator 0)
        (example_delegation (10 * Precision)) [(''stake'', 4)] (example_store (10 * Precision)))
     = Some [(''stake'', 10)]
   \<and> outcome_value
     (withdrawDelegationRewards (example_keeper True []) (example_validator 0)
        (example_delegation (10 * Precision)) [(''stake'', 40)] (example_store (10 * Precision)))
     = Some [(''stake'', 40)]"
  by (simp add: eval_defs)




text \<open>Claim C2 states that a successful withdrawal lowers the validator's outstanding
  rewards by the rewards owed. The function subtracts the rewards from the delegation's
  accumulator plus the rewards, and stores the result as the validator's outstanding
  rewards: with 100 \<open>stake\<close> outstanding, 10 owed and an empty accumulator, the
  outstanding rewards left are empty, not 90.\<close>

theorem outstanding_pool_overwritten:
  "GetValidatorOutstandingRewardsCoins (example_store (10 * Precision)) ''val''
     = [(''stake'', 100 * Precision)]
   \<and> outcome_value
     (withdrawDelegationRewards (example_keeper True []) (example_validator 0)
        (example_delegation (10 * Precision)) [] (example_store (10 * Precision)))
     = Some [(''stake'', 10)]
   \<and> GetValidatorOutstandingRewardsCoins (the (outcome_store
        (withdrawDelegationRewards (example_keeper True []) (example_validator 0)
           (example_delegation (10 * Precision)) [] (example_store (10 * Precision))))) ''val''
     = []"
  by (simp add: example_withdraw) (simp add: eval_defs)

text \<open>Claim C9, as the code has it: when the coins paid by a successful withdrawal are
  zero, the amount that the event shows is one coin of amount zero in the base
  denomination, or in the default bond denomination when no base denomination is
  registered, so that the amount attribute of the event is never empty.\<close>

theorem zero_payout_event:
  assumes "withdrawDelegationRewards k validator delegation maxAmounts s = Returned finalRewards s'"
    and "Coins_IsZero finalRewards"
  shows "last (Events s') =
           \<lparr>EventType = EventTypeWithdrawRewards,
            Attributes =
              [(AttributeKeyAmount,
                  ''0'' @ (if GetBaseDenom k = [] then DefaultBondDenom else GetBaseDenom k)),
               (AttributeKeyValidator, GetOperator validator)]\<rparr>"
proof -
  obtain endingPeriod s1 where inc: "IncrementValidatorPeriod k validator s = (endingPeriod, s1)"
    by (cases "IncrementValidatorPeriod k validator s") auto
  from withdraw_Returned[OF assms(1) inc] obtain remainder newOutstanding s2 where
    "s' = settle k validator delegation finalRewards remainder newOutstanding s2" by blast
  then have "last (Events s') =
      \<lparr>EventType = EventTypeWithdrawRewards,
       Attributes = [(AttributeKeyAmount, Coins_String (emittedRewards k finalRewards)),
                     (AttributeKeyValidator, GetOperator validator)]\<rparr>"
    by (simp add: settle_fields)
  moreover have "Coins_String (emittedRewards k finalRewards) =
      ''0'' @ (if GetBaseDenom k = [] then DefaultBondDenom else GetBaseDenom k)"
    using assms(2)
    by (simp add: emittedRewards_def Let_def Coin_String_def Int_String_def digit_char_def)
  ultimately show ?thesis by simp
qed

theorem zero_payout_event_witness:
  "last (Events (the (outcome_store
      (withdrawDelegationRewards (example_keeper True []) (example_validator 0)
         (example_delegation 500000000000000000) [] (example_store 500000000000000000)))))
   = \<lparr>EventType = ''withdraw_rewards'',
      Attributes = [(''amount'', ''0stake''), (''validator'', ''val'')]\<rparr>"
proof -
  let ?w = "withdrawDelegationRewards (example_keeper True []) (example_validator 0)
         (example_delegation 500000000000000000) [] (example_store 500000000000000000)"
  have r: "?w = Returned [] (the (outcome_store ?w))"
    by (simp add: example_withdraw_small)
  have z: "Coins_IsZero []" by (simp add: Coins_IsZero_def)
  from zero_payout_event[OF r z] show ?thesis by (simp add: eval_defs)
qed

text \<open>Claim C9 calls the placeholder a nonzero coin; its amount is zero.\<close>

theorem placeholder_coin_is_zero:
  "outcome_value
     (withdrawDelegationRewards (example_keeper True []) (example_validator 0)
        (example_delegation 500000000000000000) [] (example_store 500000000000000000)) = Some []
   \<and> emittedRewards (example_keeper True []) [] = [(''stake'', 0)]
   \<and> map Attributes (Events (the (outcome_store
        (withdrawDelegationRewards (example_keeper True []) (example_validator 0)
           (example_delegation 500000000000000000) [] (example_store 500000000000000000)))))
     = [[(''amount'', ''0stake''), (''validator'', ''val'')]]"
  by (simp add: example_withdraw_small) (simp add: eval_defs)

text \<open>Claim C4, as the code has it: a successful withdrawal deletes the starting info of
  the pair, and a second withdrawal right after it fails with
  \<^verbatim>\<open>ErrEmptyDelegationDistInfo\<close> and leaves the store as it is. Once
  \<^verbatim>\<open>initializeDelegation\<close> has written the starting info again, its previous period is
  the period that the withdrawal ended (the end of a period leaves the validator's
  current period one above the period ended) and its height is the current height, so
  that the rewards calculated in the same block are empty.\<close>

theorem withdrawal_once:
  assumes "withdrawDelegationRewards k validator delegation maxAmounts s = Returned finalRewards s'"
    and "val = GetOperator validator" and "del = GetDelegatorAddr delegation"
    and "IncrementValidatorPeriod k validator s = (endingPeriod, s1)"
    and "Period (GetValidatorCurrentRewards s1 val) = endingPeriod + 1"
  shows "\<not> HasDelegatorStartingInfo s' val del
       \<and> withdrawDelegationRewards k validator delegation maxAmounts' s' =
           Failed ErrEmptyDelegationDistInfo s'
       \<and> PreviousPeriod (GetDelegatorStartingInfo (initializeDelegation k val del s') val del) = endingPeriod
       \<and> Height (GetDelegatorStartingInfo (initializeDelegation k val del s') val del) = BlockHeight s'
       \<and> CalculateDelegationRewards k (initializeDelegation k val del s') validator delegation period = Inr []"
proof -
  from withdraw_Returned[OF assms(1,4)] obtain remainder newOutstanding s2 where
    s2: "s2 = s1 \<or> (\<exists>bank. s2 = s1\<lparr>Bank := bank\<rparr>)"
    and s': "s' = settle k validator delegation finalRewards remainder newOutstanding s2" by blast
  have none: "StartingInfos s' (val, del) = None"
    by (simp add: s' settle_fields assms(2,3))
  then have a: "\<not> HasDelegatorStartingInfo s' val del"
    by (simp add: HasDelegatorStartingInfo_def)
  then have b: "withdrawDelegationRewards k validator delegation maxAmounts' s' =
      Failed ErrEmptyDelegationDistInfo s'"
    by (simp add: withdrawDelegationRewards_def Let_def assms(2,3))
  have cur: "CurrentRewards s' = CurrentRewards s1"
    using s2 by (auto simp: s' settle_fields)
  then have "Period (GetValidatorCurrentRewards s' val) = endingPeriod + 1"
    using assms(5) by (simp add: GetValidatorCurrentRewards_def)
  then have info: "GetDelegatorStartingInfo (initializeDelegation k val del s') val del =
      \<lparr>PreviousPeriod = endingPeriod,
       Stake = TokensFromSharesTruncated
          (stakingKeeper_Validator k (incrementReferenceCount val endingPeriod s') val)
          (GetShares (stakingKeeper_Delegation k (incrementReferenceCount val endingPeriod s') del val)),
       Height = BlockHeight s'\<rparr>"
    by (simp add: initializeDelegation_def Let_def GetDelegatorStartingInfo_def
        SetDelegatorStartingInfo_def NewDelegatorStartingInfo_def incrementReferenceCount_def
        SetValidatorHistoricalRewards_def)
  have h: "BlockHeight (initializeDelegation k val del s') = BlockHeight s'"
    by (simp add: initializeDelegation_def Let_def SetDelegatorStartingInfo_def
        incrementReferenceCount_def SetValidatorHistoricalRewards_def)
  have e: "CalculateDelegationRewards k (initializeDelegation k val del s') validator delegation period = Inr []"
    using info h by (simp add: CalculateDelegationRewards_def Let_def assms(2,3)[symmetric])
  from a b info e show ?thesis by simp
qed

theorem withdrawal_once_witness:
  "\<not> HasDelegatorStartingInfo (the (outcome_store
        (withdrawDelegationRewards (example_keeper True []) (example_validator 0)
           (example_delegation (10 * Precision)) [] (example_store (10 * Precision))))) ''val'' ''del''
   \<and> PreviousPeriod (GetDelegatorStartingInfo
        (initializeDelegation (example_keeper True []) ''val'' ''del''
          (the (outcome_store
            (withdrawDelegationRewards (example_keeper True []) (example_validator 0)
              (example_delegation (10 * Precision)) [] (example_store (10 * Precision))))))
        ''val'' ''del'') = 2
   \<and> CalculateDelegationRewards (example_keeper True [])
        (initializeDelegation (example_keeper True []) ''val'' ''del''
          (the (outcome_store
            (withdrawDelegationRewards (example_keeper True []) (example_validator 0)
              (example_delegation (10 * Precision)) [] (example_store (10 * Precision))))))
        (example_validator 0) (example_delegation (10 * Precision)) 3 = Inr []"
proof -
  let ?k = "example_keeper True []" and ?v = "example_validator 0"
    and ?d = "example_delegation (10 * Precision)" and ?s = "example_store (10 * Precision)"
  let ?w = "withdrawDelegationRewards ?k ?v ?d [] ?s"
  let ?s1 = "?s\<lparr>CurrentRewards := [''val'' \<mapsto> \<lparr>Rewards = [], Period = 3\<rparr>]\<rparr>"
  have h1: "?w = Returned [(''stake'', 10)] (the (outcome_store ?w))"
    by (simp add: example_withdraw)
  have h2: "''val'' = GetOperator ?v" and h3: "''del'' = GetDelegatorAddr ?d"
    by (simp_all add: example_defs)
  have h4: "IncrementValidatorPeriod ?k ?v ?s = (2, ?s1)"
    by (simp add: eval_defs)
  have h5: "Period (GetValidatorCurrentRewards ?s1 ''val'') = 2 + 1"
    by (simp add: eval_defs)
  from withdrawal_once[OF h1 h2 h3 h4 h5, of "[]" 3] show ?thesis by simp
qed

text \<open>Claim C4 states that the starting info of the pair records the period just ended
  after a successful withdrawal; the withdrawal leaves no starting info for the pair.\<close>

theorem starting_info_deleted:
  "outcome_value
     (withdrawDelegationRewards (example_keeper True []) (example_validator 0)
        (example_delegation (10 * Precision)) [] (example_store (10 * Precision)))
     = Some [(''stake'', 10)]
   \<and> StartingInfos (the (outcome_store
        (withdrawDelegationRewards (example_keeper True []) (example_validator 0)
           (example_delegation (10 * Precision)) [] (example_store (10 * Precision)))))
       (''val'', ''del'') = None"
  by (simp add: example_withdraw)

end
